theory Spec2Isabelle
  imports Complex_Main "HOL-Library.Word"
begin

section \<open>OCR post-processing (ocr\_postprocess.cpp): shallow embedding\<close>

text \<open>
  The C++ plugin is modelled function by function. Conventions:
  \<^item> \<open>int\<close> models the C++ \<open>int\<close> fields of \<open>cv::Rect\<close> and of the configuration
    (pixel coordinates; no overflow is modelled), \<open>nat\<close> the \<open>size_t\<close> dimensions of
    a tensor;
  \<^item> \<open>real\<close> models finite \<open>float\<close>/\<open>double\<close> values, without rounding error;
    where the code divides by a value that can be zero (the boxes of detections), the
    type \<open>fval\<close> adds the infinities and NaN;
  \<^item> \<open>8 word\<close> models the \<open>uint8_t\<close> elements of a tensor buffer;
  \<^item> every \<open>throw\<close> is a value \<open>Inl e\<close> of the sum type \<open>error + 'a\<close>, and so is a
    read outside a buffer;
  \<^item> a vector that is updated in place is a list that the function returns; a loop is
    a recursive function over the elements it visits;
  \<^item> the debug output on \<open>std::cout\<close> is left out.
\<close>

subsection \<open>Errors and configuration\<close>

datatype error =
    RuntimeError string   \<comment> \<open>\<open>std::runtime_error(msg)\<close>\<close>
  | CvException           \<comment> \<open>an exception raised inside OpenCV\<close>
  | MemoryFault           \<comment> \<open>a read outside a buffer (undefined behaviour in C++)\<close>

text \<open>Modelled from the spec: the struct \<open>OcrParams\<close> is declared in
  \<open>ocr_postprocess.hpp\<close>, which is not among the sources. Its fields are the
  configuration keys of the specification (section 6) and the charset, with the types at
  which \<open>init\<close> reads them (\<open>getf\<close>, \<open>geti\<close>, \<open>getb\<close>, \<open>gets\<close>). The default
  values of the header are not used.\<close>

record OcrParams =
  det_bin_thresh :: real
  det_box_thresh :: real
  det_unclip_ratio :: real
  det_max_candidates :: int
  det_min_box_size :: real
  det_output_name :: string
  det_map_h :: int
  det_map_w :: int
  letterbox_fix :: bool
  rec_output_name :: string
  charset_path :: string
  blank_index :: int
  logits_are_softmax :: bool
  time_major :: bool
  text_conf_smooth :: real
  attach_caption_box :: bool
  charset :: "string list"

subsection \<open>Charset loading\<close>

text \<open>\<open>for (char c = a; c <= b; ++c) p.charset.emplace_back(1, c)\<close>: one
  single-character string for every character code from \<open>a\<close> to \<open>b\<close>.\<close>

definition char_range :: "char \<Rightarrow> char \<Rightarrow> string list" where
  "char_range a b = map (\<lambda>n. [char_of n]) [(of_char a :: nat) ..< Suc (of_char b)]"

definition default_symbols :: "string list" where
  "default_symbols =
     [''blank''] @ char_range (CHR ''0'') (CHR ''9'')
     @ ['':'', '';'', ''<'', ''='', ''>'', ''?'', ''@'']
     @ char_range (CHR ''A'') (CHR ''Z'')
     @ [''['', [CHR 0x5C], '']'', ''^'', ''_'', [CHR 0x60]]
     @ char_range (CHR ''a'') (CHR ''z'')
     @ [''{'', ''|'', ''}'', ''~'']
     @ [''!'', [CHR 0x22], ''#'', ''$'', ''%'', ''&'', [CHR 0x27], ''('', '')'', ''*'',
        ''+'', '','', ''-'', ''.'', ''/'', '' '']"

text \<open>\<open>load_default_charset\<close> appends the built-in table to \<open>p.charset\<close>.\<close>

definition load_default_charset :: "OcrParams \<Rightarrow> OcrParams" where
  "load_default_charset p = p\<lparr>charset := charset p @ default_symbols\<rparr>"

text \<open>\<open>while (std::getline(in, line)) push_back(line)\<close> on the content of a file:
  a line ends at a newline or at the end of the file; a read that extracts nothing at
  the end of the file fails and ends the loop.\<close>

fun getlines_from :: "string \<Rightarrow> string \<Rightarrow> string list" where
  "getlines_from cur [] = (if cur = [] then [] else [rev cur])"
| "getlines_from cur (c # cs) =
     (if c = CHR 0x0A then rev cur # getlines_from [] cs else getlines_from (c # cur) cs)"

definition getlines :: "string \<Rightarrow> string list" where
  "getlines content = getlines_from [] content"

text \<open>The file system is a map from a path to the content of the file that can be
  opened there (\<open>None\<close>: \<open>in.is_open()\<close> is false).\<close>

type_synonym filesystem = "string \<Rightarrow> string option"

definition load_charset_from_file :: "filesystem \<Rightarrow> OcrParams \<Rightarrow> error + OcrParams" where
  "load_charset_from_file fs p =
     (if charset_path p = [] then Inr (load_default_charset p)
      else case fs (charset_path p) of
             None \<Rightarrow> Inl (RuntimeError (''Failed to open charset file: '' @ charset_path p))
           | Some content \<Rightarrow>
               (let p' = p\<lparr>charset := charset p @ getlines content\<rparr>
                in if charset p' = [] then Inr (load_default_charset p') else Inr p'))"

text \<open>An example configuration, with the empty charset of a freshly constructed
  \<open>OcrParams\<close>, and two example file systems.\<close>

definition example_params :: OcrParams where
  "example_params =
     \<lparr>det_bin_thresh = 3 / 10, det_box_thresh = 6 / 10, det_unclip_ratio = 3 / 2,
      det_max_candidates = 1000, det_min_box_size = 3, det_output_name = ''det_out'',
      det_map_h = 4, det_map_w = 4, letterbox_fix = False,
      rec_output_name = ''rec_out'', charset_path = [], blank_index = 0,
      logits_are_softmax = True, time_major = False, text_conf_smooth = 0,
      attach_caption_box = False, charset = []\<rparr>"

definition no_files :: filesystem where
  "no_files path = None"

definition empty_files :: filesystem where
  "empty_files path = Some []"

subsection \<open>Float values with infinities and NaN\<close>

text \<open>
  The coordinates of a \<open>HailoBBox\<close> and the arithmetic on them keep the special
  values of IEEE floats: a division by zero gives an infinity or NaN, and every
  comparison with NaN is false. \<open>std::max(a, b)\<close> is \<open>(a < b) ? b : a\<close> and
  \<open>std::min(a, b)\<close> is \<open>(b < a) ? b : a\<close>. Rounding, overflow to infinity and
  the sign of zero are not modelled.
\<close>

datatype fval = Fin real | PInf | NInf | NaN

fun fneg :: "fval \<Rightarrow> fval" where
  "fneg (Fin a) = Fin (- a)"
| "fneg PInf = NInf"
| "fneg NInf = PInf"
| "fneg NaN = NaN"

fun fadd :: "fval \<Rightarrow> fval \<Rightarrow> fval" where
  "fadd (Fin a) (Fin b) = Fin (a + b)"
| "fadd NaN _ = NaN"
| "fadd _ NaN = NaN"
| "fadd PInf NInf = NaN"
| "fadd NInf PInf = NaN"
| "fadd PInf _ = PInf"
| "fadd _ PInf = PInf"
| "fadd NInf _ = NInf"
| "fadd _ NInf = NInf"


fun fmul :: "fval \<Rightarrow> fval \<Rightarrow> fval" where
  "fmul (Fin a) (Fin b) = Fin (a * b)"
| "fmul NaN _ = NaN"
| "fmul _ NaN = NaN"
| "fmul (Fin a) i = (if a = 0 then NaN else if 0 < a then i else fneg i)"
| "fmul i (Fin b) = (if b = 0 then NaN else if 0 < b then i else fneg i)"
| "fmul PInf i = i"
| "fmul NInf i = fneg i"

fun fdiv :: "fval \<Rightarrow> fval \<Rightarrow> fval" where
  "fdiv (Fin a) (Fin b) =
     (if b = 0 then (if a = 0 then NaN else if 0 < a then PInf else NInf) else Fin (a / b))"
| "fdiv NaN _ = NaN"
| "fdiv _ NaN = NaN"
| "fdiv (Fin a) _ = Fin 0"
| "fdiv i (Fin b) = (if 0 \<le> b then i else fneg i)"
| "fdiv _ _ = NaN"

fun flt :: "fval \<Rightarrow> fval \<Rightarrow> bool" where
  "flt (Fin a) (Fin b) = (a < b)"
| "flt NaN _ = False"
| "flt _ NaN = False"
| "flt _ NInf = False"
| "flt NInf _ = True"
| "flt PInf _ = False"
| "flt _ PInf = True"




definition float_of_int :: "int \<Rightarrow> fval" where
  "float_of_int i = Fin (of_int i)"

subsection \<open>The vendor object model: tensors, boxes, objects, ROI\<close>

text \<open>
  Modelled from the spec: the tensor, box, detection, classification and ROI classes
  belong to the vendor library, which is not among the sources (sections 3, 6 and 9 of
  the specification: a ROI is a mutable container of tensors and annotation objects
  with add, remove and clear operations). The model keeps what the plugin reads and
  writes. A ROI holds its tensors in the order \<open>get_tensors()\<close> returns them and its
  objects in the order they were added. \<open>add_object\<close> appends,
  \<open>remove_objects_typed(HAILO_DETECTION)\<close> erases every detection,
  \<open>get_hailo_detections\<close> returns the detections in order, and
  \<open>clear_scaling_bbox\<close> resets the scaling box to \<open>unit_bbox\<close>. Objects of other
  types are \<open>HailoOther\<close>.
\<close>

record HailoBBox =
  xmin :: fval
  ymin :: fval
  width :: fval
  height :: fval

definition unit_bbox :: HailoBBox where
  "unit_bbox = \<lparr>xmin = Fin 0, ymin = Fin 0, width = Fin 1, height = Fin 1\<rparr>"

datatype hailo_object =
    HailoDetection (get_bbox: HailoBBox) (get_label: string) (get_confidence: real)
      (get_objects: "hailo_object list")
  | HailoClassification (get_classification_type: string) (get_class_label: string)
      (get_class_confidence: real)
  | HailoOther nat

record HailoTensor =
  tensor_name :: string
  tensor_shape :: "nat list"
  tensor_data :: "8 word list option"   \<comment> \<open>\<open>None\<close>: \<open>data()\<close> is a null pointer\<close>

record HailoROI =
  roi_bbox :: HailoBBox
  scaling_bbox :: HailoBBox
  tensors :: "HailoTensor list"
  roi_objects :: "hailo_object list"

fun is_detection :: "hailo_object \<Rightarrow> bool" where
  "is_detection (HailoDetection b l c os) = True"
| "is_detection _ = False"

definition get_hailo_detections :: "HailoROI \<Rightarrow> hailo_object list" where
  "get_hailo_detections roi = filter is_detection (roi_objects roi)"

definition remove_detections :: "HailoROI \<Rightarrow> HailoROI" where
  "remove_detections roi =
     roi\<lparr>roi_objects := filter (\<lambda>obj. \<not> is_detection obj) (roi_objects roi)\<rparr>"

definition add_object :: "HailoROI \<Rightarrow> hailo_object \<Rightarrow> HailoROI" where
  "add_object roi obj = roi\<lparr>roi_objects := roi_objects roi @ [obj]\<rparr>"

definition has_tensors :: "HailoROI \<Rightarrow> bool" where
  "has_tensors roi = (tensors roi \<noteq> [])"

subsection \<open>\<open>crop_text_regions_filter\<close>\<close>

text \<open>The loop pushes every detection to \<open>text_detections\<close> (the test of the label is
  commented out in the source); then all detections are removed from the ROI and the
  collected ones are added back.\<close>

definition crop_text_regions_filter :: "HailoROI \<Rightarrow> HailoROI" where
  "crop_text_regions_filter roi =
     (let detections = get_hailo_detections roi;
          text_detections = foldl (\<lambda>acc detection. acc @ [detection]) [] detections;
          roi1 = remove_detections roi
      in foldl add_object roi1 text_detections)"

text \<open>An example ROI: a detection labelled \<open>text_region\<close>, another object, and a
  detection with a different label.\<close>

definition example_roi :: HailoROI where
  "example_roi =
     \<lparr>roi_bbox = unit_bbox, scaling_bbox = unit_bbox, tensors = [],
      roi_objects =
        [HailoDetection \<lparr>xmin = Fin (1/4), ymin = Fin (1/4), width = Fin (1/2), height = Fin (1/4)\<rparr>
           ''text_region'' (9/10) [],
         HailoOther 7,
         HailoDetection unit_bbox ''car'' (1/2) []]\<rparr>"

subsection \<open>Rectangles (\<open>cv::Rect\<close>) and C++ rounding\<close>

record Rect =
  rect_x :: int
  rect_y :: int
  rect_width :: int
  rect_height :: int

definition mk_rect :: "int \<Rightarrow> int \<Rightarrow> int \<Rightarrow> int \<Rightarrow> Rect" where
  "mk_rect x0 y0 w h = \<lparr>rect_x = x0, rect_y = y0, rect_width = w, rect_height = h\<rparr>"

definition rect_empty :: "Rect \<Rightarrow> bool" where
  "rect_empty r = (rect_width r \<le> 0 \<or> rect_height r \<le> 0)"

text \<open>\<open>a |= b\<close> of OpenCV: the bounding rectangle of both; an empty operand is
  ignored.\<close>

definition rect_union :: "Rect \<Rightarrow> Rect \<Rightarrow> Rect" where
  "rect_union a b =
     (if rect_empty a then b
      else if \<not> rect_empty b then
        (let x1 = min (rect_x a) (rect_x b);
             y1 = min (rect_y a) (rect_y b)
         in mk_rect x1 y1
              (max (rect_x a + rect_width a) (rect_x b + rect_width b) - x1)
              (max (rect_y a + rect_height a) (rect_y b + rect_height b) - y1))
      else a)"

text \<open>\<open>a & b\<close> of OpenCV: the intersection, \<open>Rect()\<close> when it is empty.\<close>

definition rect_inter :: "Rect \<Rightarrow> Rect \<Rightarrow> Rect" where
  "rect_inter a b =
     (if rect_empty a \<or> rect_empty b then mk_rect 0 0 0 0
      else
        (let x1 = max (rect_x a) (rect_x b);
             y1 = max (rect_y a) (rect_y b);
             c = mk_rect x1 y1
                   (min (rect_x a + rect_width a) (rect_x b + rect_width b) - x1)
                   (min (rect_y a + rect_height a) (rect_y b + rect_height b) - y1)
         in if rect_empty c then mk_rect 0 0 0 0 else c))"

text \<open>\<open>std::round\<close> rounds halves away from zero; the cast \<open>int(v)\<close> truncates
  toward zero.\<close>

definition c_round :: "real \<Rightarrow> int" where
  "c_round v = (if 0 \<le> v then \<lfloor>v + 1 / 2\<rfloor> else - \<lfloor>- v + 1 / 2\<rfloor>)"

definition c_trunc :: "real \<Rightarrow> int" where
  "c_trunc v = (if 0 \<le> v then \<lfloor>v\<rfloor> else \<lceil>v\<rceil>)"

text \<open>The lambda \<open>clamp_rect\<close> (also \<open>clamp\<close>, \<open>clamp_rect_xywh\<close>): the same
  four assignments in the three places of the source.\<close>

definition clamp_rect :: "int \<Rightarrow> int \<Rightarrow> Rect \<Rightarrow> Rect" where
  "clamp_rect W H q =
     (let x1 = max 0 (min (rect_x q) (W - 1));
          y1 = max 0 (min (rect_y q) (H - 1))
      in mk_rect x1 y1 (max 1 (min (rect_width q) (W - x1))) (max 1 (min (rect_height q) (H - y1))))"

subsection \<open>\<open>merge_horizontal_boxes\<close>\<close>

definition y_overlap_ratio :: "Rect \<Rightarrow> Rect \<Rightarrow> real" where
  "y_overlap_ratio a b =
     (let top = max (rect_y a) (rect_y b);
          bot = min (rect_y a + rect_height a) (rect_y b + rect_height b);
          inter = max 0 (bot - top);
          min_h = max 1 (min (rect_height a) (rect_height b))
      in real_of_int inter / real_of_int min_h)"

text \<open>The loop over \<open>rects[1..]\<close> with the running rectangle \<open>run\<close>; the result is
  the vector \<open>merged\<close> after the final \<open>push_back(run)\<close>.\<close>

fun merge_runs :: "int \<Rightarrow> real \<Rightarrow> Rect \<Rightarrow> Rect list \<Rightarrow> Rect list" where
  "merge_runs max_gap_px min_y_overlap_ratio run [] = [run]"
| "merge_runs max_gap_px min_y_overlap_ratio run (next # rest) =
     (let gap = rect_x next - (rect_x run + rect_width run);
          yov = y_overlap_ratio run next
      in if gap \<le> max_gap_px \<and> yov \<ge> min_y_overlap_ratio
         then merge_runs max_gap_px min_y_overlap_ratio (rect_union run next) rest
         else run # merge_runs max_gap_px min_y_overlap_ratio next rest)"

text \<open>\<open>std::sort\<close> by the left edge is modelled by the stable insertion sort
  \<open>sort_key\<close>; the order \<open>std::sort\<close> gives to rectangles with equal left edges is
  unspecified in C++.\<close>

definition merge_horizontal_boxes :: "Rect list \<Rightarrow> int \<Rightarrow> real \<Rightarrow> Rect list" where
  "merge_horizontal_boxes rects max_gap_px min_y_overlap_ratio =
     (if length rects \<le> 1 then rects
      else case sort_key rect_x rects of
             [] \<Rightarrow> []
           | run # rest \<Rightarrow> merge_runs max_gap_px min_y_overlap_ratio run rest)"





subsection \<open>\<open>db_unclip_rect_iter\<close> and \<open>db_unclip_rect_iter_aniso\<close>\<close>


definition grow_rect :: "Rect \<Rightarrow> int \<Rightarrow> int \<Rightarrow> Rect" where
  "grow_rect r dx dy =
     mk_rect (rect_x r - dx) (rect_y r - dy) (rect_width r + 2 * dx) (rect_height r + 2 * dy)"









subsection \<open>Detection stage: tensor lookup, map size, probability map\<close>

definition get_tensor_by_name_or_fallback :: "HailoROI \<Rightarrow> string \<Rightarrow> error + HailoTensor" where
  "get_tensor_by_name_or_fallback roi desired =
     (case find (\<lambda>t. tensor_name t = desired) (tensors roi) of
        Some chosen \<Rightarrow> Inr chosen
      | None \<Rightarrow>
          (case tensors roi of
             [] \<Rightarrow> Inl (RuntimeError ''ROI has no tensors'')
           | front # _ \<Rightarrow> Inr front))"

text \<open>The resolution of \<open>H\<close> and \<open>W\<close> from the shape of the tensor, with the final
  swap of a transposed tiny dimension.\<close>

definition resolve_hw :: "OcrParams \<Rightarrow> nat list \<Rightarrow> int \<times> int" where
  "resolve_hw p sh =
     (let (H, W) =
            (if length sh = 4 then
               (if sh ! 1 = 1 then (int (sh ! 2), int (sh ! 3))
                else if sh ! 3 = 1 then (int (sh ! 1), int (sh ! 2))
                else (int (sh ! 2), int (sh ! 3)))
             else if length sh = 3 then
               (if sh ! 2 = 1 then (int (sh ! 0), int (sh ! 1))
                else if sh ! 0 = 1 then (int (sh ! 1), int (sh ! 2))
                else (let v = sort [int (sh ! 0), int (sh ! 1), int (sh ! 2)] in (v ! 1, v ! 2)))
             else if length sh = 2 then (int (sh ! 0), int (sh ! 1))
             else (det_map_h p, det_map_w p))
      in if W \<le> 4 \<and> H > 16 then (W, H) else (H, W))"

text \<open>A \<open>cv::Mat\<close> of floats, row-major.\<close>

record ProbMap =
  pm_rows :: int
  pm_cols :: int
  pm_data :: "real list"

text \<open>\<open>tensor_to_probmap_u8_as_float\<close>: a null buffer throws; a \<open>cv::Mat\<close> of
  negative size is refused by OpenCV; \<open>memcpy\<close> of \<open>H\<sdot>W\<close> bytes from a shorter
  buffer reads outside it.\<close>

definition tensor_to_probmap_u8_as_float :: "HailoTensor \<Rightarrow> int \<Rightarrow> int \<Rightarrow> error + ProbMap" where
  "tensor_to_probmap_u8_as_float t H W =
     (case tensor_data t of
        None \<Rightarrow> Inl (RuntimeError ''Detector tensor has null data()'')
      | Some u8 \<Rightarrow>
          if H < 0 \<or> W < 0 then Inl CvException
          else if int (length u8) < H * W then Inl MemoryFault
          else Inr \<lparr>pm_rows = H, pm_cols = W,
                    pm_data = map (\<lambda>b. real (unat b) / 255) (take (nat (H * W)) u8)\<rparr>)"

subsection \<open>Detection stage: adaptive threshold and closing kernel\<close>

text \<open>\<open>fg_ratio_default = float(countNonZero(prob > det_bin_thresh)) / float(H*W)\<close>;
  on an empty map this is \<open>0/0\<close>, a NaN.\<close>

definition fg_ratio_default :: "ProbMap \<Rightarrow> real \<Rightarrow> fval" where
  "fg_ratio_default prob thresh =
     (let above_default = length (filter (\<lambda>v. thresh < v) (pm_data prob))
      in fdiv (Fin (real above_default)) (float_of_int (pm_rows prob * pm_cols prob)))"

text \<open>The choice of \<open>bin_thr\<close> (section 3 of \<open>paddleocr_det\<close>).\<close>

definition adaptive_bin_thr :: "real \<Rightarrow> fval \<Rightarrow> real" where
  "adaptive_bin_thr thresh fg =
     (if flt fg (Fin (3 / 1000)) then max (15 / 100) (thresh * (8 / 10))
      else if flt (Fin (8 / 100)) fg then min (75 / 100) (thresh * (12 / 10))
      else thresh)"

definition chosen_bin_thr :: "OcrParams \<Rightarrow> ProbMap \<Rightarrow> real" where
  "chosen_bin_thr p prob =
     adaptive_bin_thr (det_bin_thresh p) (fg_ratio_default prob (det_bin_thresh p))"

definition odd_at_least :: "int \<Rightarrow> int" where
  "odd_at_least v = (if v mod 2 = 0 then v + 1 else v)"

definition closing_kernel :: "int \<Rightarrow> int \<Rightarrow> fval \<Rightarrow> int \<times> int" where
  "closing_kernel W H fg =
     (let kscale = (if flt fg (Fin (1 / 100)) then 1
                    else if flt (Fin (6 / 100)) fg then 3 / 2 else 12 / 10);
          kx = odd_at_least (max 3 (c_round (real_of_int W * (12 / 1000) * kscale)));
          ky = odd_at_least (max 1 (c_round (real_of_int H * (6 / 1000) * kscale)))
      in (kx, ky))"

text \<open>
  The OpenCV steps between the probability map and the bounding rectangles are a
  parameter of the model: writing the debug images, \<open>cv::threshold\<close> at \<open>bin_thr\<close>,
  the morphological closing with a \<open>kx\<times>ky\<close> kernel, \<open>cv::findContours\<close>, and
  \<open>cv::boundingRect\<close> of every non-empty contour. The result is the list of these
  bounding rectangles, or \<open>None\<close> when OpenCV raises an exception.
\<close>

type_synonym contour_finder = "ProbMap \<Rightarrow> real \<Rightarrow> int \<Rightarrow> int \<Rightarrow> Rect list option"

subsection \<open>Detection stage: merging, inflating, scoring\<close>

text \<open>\<open>std::nth_element\<close> at the middle position: the element that a sorted vector
  has there.\<close>

definition median_height :: "Rect list \<Rightarrow> int" where
  "median_height rects = (let hs = map rect_height rects in sort hs ! (length hs div 2))"

definition gap_px :: "int \<Rightarrow> int \<Rightarrow> int" where
  "gap_px W median_h =
     max 3 (min (c_trunc (real_of_int W * (2 / 100))) (c_round (real_of_int median_h * 1)))"

text \<open>One pass of the inflate loop (section 4.6) on one rectangle.\<close>

definition gentle_grow :: "int \<Rightarrow> int \<Rightarrow> Rect \<Rightarrow> Rect" where
  "gentle_grow W H r =
     (let gx = max 1 (c_round (max 2 (real_of_int (rect_height r) * (15 / 100))));
          gy = max 1 (c_round (max 1 (real_of_int (rect_height r) * (12 / 100))))
      in clamp_rect W H (grow_rect r gx gy))"

definition aspect_ratio :: "Rect \<Rightarrow> real" where
  "aspect_ratio r = real_of_int (rect_width r) / real_of_int (max 1 (rect_height r))"

definition inflate_rect :: "int \<Rightarrow> int \<Rightarrow> int \<Rightarrow> Rect \<Rightarrow> Rect" where
  "inflate_rect W H median_h r0 =
     (let PAD_X0 = max 2 (c_round (real_of_int median_h * (6 / 10)));
          PAD_Y0 = max 1 (c_round (real_of_int median_h * (35 / 100)));
          r1 = clamp_rect W H (grow_rect r0 PAD_X0 PAD_Y0);
          r2 = (if aspect_ratio r1 > 10
                then (let addY = max PAD_Y0 (c_round (real_of_int (rect_height r1) * (5 / 10)))
                      in clamp_rect W H (mk_rect (rect_x r1) (rect_y r1 - addY div 2)
                           (rect_width r1) (rect_height r1 + addY)))
                else r1)
      in gentle_grow W H (gentle_grow W H r2))"

text \<open>\<open>region_score_rect\<close>: the mean of the probability map over the part of the
  rectangle that lies in the map, 0 when that part is empty.\<close>

definition pm_at :: "ProbMap \<Rightarrow> int \<Rightarrow> int \<Rightarrow> real" where
  "pm_at prob row col = pm_data prob ! nat (row * pm_cols prob + col)"

definition region_score_rect :: "ProbMap \<Rightarrow> Rect \<Rightarrow> real" where
  "region_score_rect prob r =
     (let R = rect_inter r (mk_rect 0 0 (pm_cols prob) (pm_rows prob))
      in if rect_empty R then 0
         else sum_list (concat (map (\<lambda>row. map (\<lambda>col. pm_at prob row col)
                                      [rect_x R .. rect_x R + rect_width R - 1])
                          [rect_y R .. rect_y R + rect_height R - 1]))
              / real_of_int (rect_width R * rect_height R))"

text \<open>Modelled from the spec: \<open>hailo_common::create_flattened_bbox\<close> of the vendor
  library gives the flattened (scaling-aware) bounding box of the ROI (section 4.2,
  step 8): the box of the ROI placed inside its scaling box.\<close>

definition create_flattened_bbox :: "HailoBBox \<Rightarrow> HailoBBox \<Rightarrow> HailoBBox" where
  "create_flattened_bbox bbox parent_bbox =
     \<lparr>xmin = fadd (xmin parent_bbox) (fmul (xmin bbox) (width parent_bbox)),
      ymin = fadd (ymin parent_bbox) (fmul (ymin bbox) (height parent_bbox)),
      width = fmul (width bbox) (width parent_bbox),
      height = fmul (height bbox) (height parent_bbox)\<rparr>"

text \<open>The mapping of a pixel rectangle to a \<open>text_region\<close> detection in frame
  coordinates (the same four lines in the filter loop and in the fallback).\<close>

definition text_region_detection :: "HailoBBox \<Rightarrow> int \<Rightarrow> int \<Rightarrow> Rect \<Rightarrow> real \<Rightarrow> hailo_object" where
  "text_region_detection roi_box W H r score =
     (let sx = fdiv (width roi_box) (float_of_int W);
          sy = fdiv (height roi_box) (float_of_int H)
      in HailoDetection
           \<lparr>xmin = fadd (fmul (float_of_int (rect_x r)) sx) (xmin roi_box),
            ymin = fadd (fmul (float_of_int (rect_y r)) sy) (ymin roi_box),
            width = fmul (float_of_int (rect_width r)) sx,
            height = fmul (float_of_int (rect_height r)) sy\<rparr>
           ''text_region'' score [])"

subsection \<open>Detection stage: filtering, fallback, \<open>paddleocr_det\<close>\<close>

text \<open>The four \<open>continue\<close> tests of the filter loop (section 5): a rectangle is
  dropped when one of them holds.\<close>

definition rect_dropped :: "OcrParams \<Rightarrow> ProbMap \<Rightarrow> int \<Rightarrow> Rect \<Rightarrow> bool" where
  "rect_dropped p prob median_h r =
     (let MIN_H_PX = max 3 (c_round (real_of_int (pm_rows prob) * (10 / 1000)));
          AR_MIN = 6 / 10;
          AR_MAX = 80;
          MIN_AREA_PX = max 80 (real_of_int (median_h * median_h) * (4 / 10));
          SCORE_BASE = det_box_thresh p;
          ar = aspect_ratio r;
          hpx = rect_height r;
          area = real_of_int (rect_width r) * real_of_int (rect_height r);
          score = region_score_rect prob r;
          score_min = (if ar > 16 then max (45 / 100) (SCORE_BASE - 15 / 100) else SCORE_BASE)
      in hpx < MIN_H_PX \<or> area < MIN_AREA_PX \<or> (ar < AR_MIN \<or> ar > AR_MAX) \<or> score < score_min)"

text \<open>The filter loop with its vector \<open>outs\<close>; it ends early when \<open>outs\<close> has
  reached \<open>det_max_candidates\<close>.\<close>

primrec filter_loop ::
  "OcrParams \<Rightarrow> ProbMap \<Rightarrow> HailoBBox \<Rightarrow> int \<Rightarrow> Rect list \<Rightarrow> hailo_object list \<Rightarrow> hailo_object list" where
  "filter_loop p prob roi_box median_h [] outs = outs"
| "filter_loop p prob roi_box median_h (r # rest) outs =
     (if rect_dropped p prob median_h r then filter_loop p prob roi_box median_h rest outs
      else
        (let outs1 = outs @ [text_region_detection roi_box (pm_cols prob) (pm_rows prob) r
                               (region_score_rect prob r)]
         in if int (length outs1) \<ge> det_max_candidates p then outs1
            else filter_loop p prob roi_box median_h rest outs1))"

text \<open>The fallback (section 5.5): the indices of the rectangles sorted by decreasing
  width (\<open>std::sort\<close>, modelled by a stable sort), the first \<open>keepN\<close> of them, each
  rectangle padded by \<open>max(1, round(0.1 \<sdot> height))\<close> and clamped.\<close>

definition fallback_pad :: "int \<Rightarrow> int \<Rightarrow> Rect \<Rightarrow> Rect" where
  "fallback_pad W H r =
     (let gx = max 1 (c_round (real_of_int (rect_height r) * (1 / 10)));
          gy = max 1 (c_round (real_of_int (rect_height r) * (1 / 10)))
      in clamp_rect W H (grow_rect r gx gy))"

definition fallback_detections :: "ProbMap \<Rightarrow> HailoBBox \<Rightarrow> Rect list \<Rightarrow> hailo_object list" where
  "fallback_detections prob roi_box rects =
     (let idx = sort_key (\<lambda>i. - rect_width (rects ! i)) [0 ..< length rects];
          keepN = min 2 (length idx)
      in map (\<lambda>k. let r = fallback_pad (pm_cols prob) (pm_rows prob) (rects ! (idx ! k))
                  in text_region_detection roi_box (pm_cols prob) (pm_rows prob) r
                       (region_score_rect prob r))
           [0 ..< keepN])"

definition det_outs ::
  "OcrParams \<Rightarrow> ProbMap \<Rightarrow> HailoBBox \<Rightarrow> int \<Rightarrow> Rect list \<Rightarrow> hailo_object list" where
  "det_outs p prob roi_box median_h rects =
     (let outs = filter_loop p prob roi_box median_h rects []
      in if outs = [] \<and> rects \<noteq> [] then fallback_detections prob roi_box rects else outs)"

text \<open>Sections 4.5 and 4.6: the rectangles after merging and inflating.\<close>

definition det_candidates :: "int \<Rightarrow> int \<Rightarrow> Rect list \<Rightarrow> Rect list" where
  "det_candidates W H rects0 =
     (let median_h = median_height rects0;
          merged = merge_horizontal_boxes rects0 (gap_px W median_h) (45 / 100)
      in map (inflate_rect W H median_h) merged)"

definition add_detections :: "HailoROI \<Rightarrow> hailo_object list \<Rightarrow> HailoROI" where
  "add_detections roi outs = foldl add_object roi outs"

definition clear_scaling_bbox :: "HailoROI \<Rightarrow> HailoROI" where
  "clear_scaling_bbox roi = roi\<lparr>scaling_bbox := unit_bbox\<rparr>"

text \<open>From the rectangles of the contours to the updated ROI (sections 4.5 to the
  end).\<close>

definition det_emit :: "OcrParams \<Rightarrow> ProbMap \<Rightarrow> HailoROI \<Rightarrow> Rect list \<Rightarrow> HailoROI" where
  "det_emit p prob roi rects0 =
     (let median_h = median_height rects0;
          rects = det_candidates (pm_cols prob) (pm_rows prob) rects0;
          roi_box = create_flattened_bbox (roi_bbox roi) (scaling_bbox roi);
          outs = det_outs p prob roi_box median_h rects
      in if outs \<noteq> [] then
           (let roi1 = add_detections roi outs
            in if letterbox_fix p then clear_scaling_bbox roi1 else roi1)
         else roi)"

definition paddleocr_det :: "contour_finder \<Rightarrow> OcrParams \<Rightarrow> HailoROI \<Rightarrow> error + HailoROI" where
  "paddleocr_det find_rects p roi =
     (if \<not> has_tensors roi then Inr roi
      else case get_tensor_by_name_or_fallback roi (det_output_name p) of
        Inl e \<Rightarrow> Inl e
      | Inr t \<Rightarrow>
          (let (H, W) = resolve_hw p (tensor_shape t)
           in case tensor_to_probmap_u8_as_float t H W of
                Inl e \<Rightarrow> Inl e
              | Inr prob \<Rightarrow>
                  (let fg = fg_ratio_default prob (det_bin_thresh p);
                       bin_thr = adaptive_bin_thr (det_bin_thresh p) fg;
                       (kx, ky) = closing_kernel W H fg
                   in case find_rects prob bin_thr kx ky of
                        None \<Rightarrow> Inl CvException
                      | Some bounding \<Rightarrow>
                          (let rects0 = filter (\<lambda>r. rect_width r > 0 \<and> rect_height r > 0) bounding
                           in if rects0 = [] then Inr roi
                              else Inr (det_emit p prob roi rects0)))))"

text \<open>Examples for the detection stage: a 4\<times>5 map with one pixel at 1.0, a 4\<times>4
  tensor of bytes 255 under a name that differs from the configured one, a contour
  step that finds nothing and one that finds a single 2\<times>1 rectangle.\<close>

definition map_mid :: ProbMap where
  "map_mid = \<lparr>pm_rows = 4, pm_cols = 5, pm_data = 1 # replicate 19 0\<rparr>"

definition map_dense :: ProbMap where
  "map_dense = \<lparr>pm_rows = 4, pm_cols = 4, pm_data = replicate 16 1\<rparr>"

definition example_tensor :: HailoTensor where
  "example_tensor =
     \<lparr>tensor_name = ''conv42'', tensor_shape = [4, 4], tensor_data = Some (replicate 16 255)\<rparr>"

definition example_det_roi :: HailoROI where
  "example_det_roi =
     \<lparr>roi_bbox = unit_bbox, scaling_bbox = unit_bbox, tensors = [example_tensor],
      roi_objects = []\<rparr>"

definition no_contours :: contour_finder where
  "no_contours prob bin_thr kx ky = Some []"




subsection \<open>Recognition stage: \<open>softmax1d\<close>, CTC greedy decoding, \<open>paddleocr_recognize\<close>\<close>

text \<open>\<open>softmax1d\<close> on a non-empty row: subtract the maximum, exponentiate,
  normalise.\<close>

definition softmax1d :: "real list \<Rightarrow> real list" where
  "softmax1d v =
     (let m = fold max (tl v) (hd v);
          sum = sum_list (map (\<lambda>x. exp (x - m)) v)
      in map (\<lambda>x. exp (x - m) / sum) v)"

text \<open>\<open>std::max_element\<close> on a non-empty row: the position of the first largest
  element.\<close>

primrec max_element_from :: "nat \<Rightarrow> real \<Rightarrow> nat \<Rightarrow> real list \<Rightarrow> nat" where
  "max_element_from best best_val i [] = best"
| "max_element_from best best_val i (v # vs) =
     (if best_val < v then max_element_from i v (Suc i) vs
      else max_element_from best best_val (Suc i) vs)"

definition max_element_index :: "real list \<Rightarrow> nat" where
  "max_element_index row = (case row of [] \<Rightarrow> 0 | v # vs \<Rightarrow> max_element_from 0 v 1 vs)"

text \<open>The matrix \<open>probs[T][C]\<close> read from the buffer in the layout \<open>[1, C, T]\<close> or
  \<open>[1, T, C]\<close>.\<close>

definition build_probs :: "bool \<Rightarrow> nat \<Rightarrow> nat \<Rightarrow> 8 word list \<Rightarrow> real list list" where
  "build_probs layout_is_NCT T C base =
     map (\<lambda>t0. map (\<lambda>c. real (unat (base ! (if layout_is_NCT then c * T + t0 else t0 * C + c)))
                        * (1 / 255))
                [0 ..< C])
         [0 ..< T]"

text \<open>The state of the decoding loop: \<open>out_text\<close>, \<open>conf_sum\<close>, \<open>conf_count\<close>,
  \<open>prev\<close>; \<open>ctc_step\<close> is the body of the loop for one row.\<close>

type_synonym ctc_state = "string \<times> real \<times> int \<times> int"

definition ctc_step :: "OcrParams \<Rightarrow> ctc_state \<Rightarrow> real list \<Rightarrow> ctc_state" where
  "ctc_step p st row =
     (case st of (out_text, conf_sum, conf_count, prev) \<Rightarrow>
        (let idx = int (max_element_index row);
             pmax = row ! max_element_index row
         in if idx \<noteq> blank_index p \<and> idx \<noteq> prev then
              (out_text @ (if 0 \<le> idx \<and> idx < int (length (charset p))
                           then charset p ! nat idx else ''?''),
               conf_sum + pmax, conf_count + 1, idx)
            else (out_text, conf_sum, conf_count, idx)))"

definition ctc_decode :: "OcrParams \<Rightarrow> real list list \<Rightarrow> ctc_state" where
  "ctc_decode p probs = foldl (ctc_step p) ([], 0, 0, - 1) probs"

text \<open>\<open>detections[0]->add_object(classification)\<close>: the classification is appended
  to the objects of the first detection of the ROI.\<close>

fun add_to_first_detection :: "hailo_object \<Rightarrow> hailo_object list \<Rightarrow> hailo_object list" where
  "add_to_first_detection cls [] = []"
| "add_to_first_detection cls (HailoDetection b l c subs # rest) =
     HailoDetection b l c (subs @ [cls]) # rest"
| "add_to_first_detection cls (obj # rest) = obj # add_to_first_detection cls rest"

text \<open>The end of \<open>paddleocr_recognize\<close>: the test of the decoded text and the
  attachment.\<close>

definition attach_text :: "HailoROI \<Rightarrow> string \<Rightarrow> real \<Rightarrow> HailoROI" where
  "attach_text roi out_text conf =
     (if out_text \<noteq> [] \<and> out_text \<noteq> '' '' then
        (if get_hailo_detections roi \<noteq> [] then
           roi\<lparr>roi_objects :=
                 add_to_first_detection (HailoClassification ''license_plate'' out_text conf)
                   (roi_objects roi)\<rparr>
         else roi)
      else roi)"

text \<open>\<open>paddleocr_recognize\<close>. Reading the buffer beyond its end, and dereferencing
  the end iterator that \<open>std::max_element\<close> returns for an empty row, are faults.\<close>

definition paddleocr_recognize :: "OcrParams \<Rightarrow> HailoROI \<Rightarrow> error + HailoROI" where
  "paddleocr_recognize p roi =
     (if \<not> has_tensors roi then Inr roi
      else case get_tensor_by_name_or_fallback roi (rec_output_name p) of
        Inl e \<Rightarrow> Inl e
      | Inr t \<Rightarrow>
          (let shape = tensor_shape t
           in if length shape \<noteq> 3 then Inl (RuntimeError ''Unexpected recognizer rank (expected 3)'')
              else case tensor_data t of
                None \<Rightarrow> Inl (RuntimeError ''Recognizer tensor not UINT8'')
              | Some u8 \<Rightarrow>
                  (let N = shape ! 0; D1 = shape ! 1; D2 = shape ! 2
                   in if N \<noteq> 1 then Inl (RuntimeError ''Recognizer expects N=1'')
                      else
                        (let C = min D1 D2;
                             T = max D1 D2;
                             layout_is_NCT = (D1 = C \<and> D2 = T)
                         in if length u8 < T * C then Inl MemoryFault
                            else if C = 0 \<and> 0 < T then Inl MemoryFault
                            else
                              (let probs0 = build_probs layout_is_NCT T C u8;
                                   probs = (if \<not> logits_are_softmax p then map softmax1d probs0
                                            else probs0);
                                   (out_text, conf_sum, conf_count, prev) = ctc_decode p probs;
                                   conf = (if conf_count > 0 then conf_sum / real_of_int conf_count
                                           else 0)
                               in Inr (attach_text roi out_text conf))))))"

text \<open>Examples for the recognition stage: a charset of two symbols, the second one a
  space; a 3\<times>2 tensor whose rows have their maxima at the classes 1, 0, 1; a 3\<times>3
  tensor (layout \<open>[1, C, T]\<close>) whose rows have their maxima at the classes 2, 2, 1;
  a ROI with one detection.\<close>

definition space_params :: OcrParams where
  "space_params = example_params\<lparr>charset := [''blank'', '' '']\<rparr>"

definition letter_params :: OcrParams where
  "letter_params = example_params\<lparr>charset := [''blank'', ''a'']\<rparr>"

definition space_tensor :: HailoTensor where
  "space_tensor =
     \<lparr>tensor_name = ''rec_out'', tensor_shape = [1, 3, 2],
      tensor_data = Some [0, 255, 255, 0, 0, 255]\<rparr>"

definition overflow_tensor :: HailoTensor where
  "overflow_tensor =
     \<lparr>tensor_name = ''rec_out'', tensor_shape = [1, 3, 3],
      tensor_data = Some [0, 0, 0, 0, 0, 255, 255, 255, 0]\<rparr>"

definition plate_detection :: hailo_object where
  "plate_detection = HailoDetection unit_bbox ''text_region'' (9 / 10) []"

definition rec_roi :: "HailoTensor \<Rightarrow> HailoROI" where
  "rec_roi t =
     \<lparr>roi_bbox = unit_bbox, scaling_bbox = unit_bbox, tensors = [t],
      roi_objects = [plate_detection]\<rparr>"

subsection \<open>\<open>crop_text_regions\<close>\<close>










section \<open>Verified properties\<close>

subsection \<open>Charset loading\<close>

lemma length_char_range: "length (char_range a b) = Suc (of_char b) - (of_char a :: nat)"
  by (simp add: char_range_def del: upt_Suc)

lemma length_default_symbols: "length default_symbols = 96"
  by (simp add: default_symbols_def length_char_range)

lemma default_symbols_blank: "default_symbols ! 0 = ''blank''"
  by (simp add: default_symbols_def)

text \<open>
  Claim C1, as stated, fails on the code: a charset path that names a file which cannot
  be opened makes \<open>load_charset_from_file\<close> throw instead of falling back, and the
  built-in table has 96 entries, not 97.
\<close>

theorem C1_absent_file_raises_counterexample:
  "load_charset_from_file no_files (example_params\<lparr>charset_path := ''missing.txt''\<rparr>)
     = Inl (RuntimeError ''Failed to open charset file: missing.txt'')
   \<and> length (charset (load_default_charset example_params)) \<noteq> 97"
  by (simp add: load_charset_from_file_def no_files_def example_params_def
      load_default_charset_def length_default_symbols)

text \<open>
  Claim C1, amended: starting from the empty charset of a fresh \<open>OcrParams\<close>, the
  loader yields the built-in default table when the charset path is empty or the file
  has no lines; it raises when the file cannot be opened; the default table has exactly
  96 symbols with the blank token at index 0.
\<close>

theorem C1_charset_fallback:
  assumes "charset p = []"
  shows "(charset_path p = [] \<longrightarrow>
            load_charset_from_file fs p = Inr (load_default_charset p))
       \<and> (charset_path p \<noteq> [] \<and> fs (charset_path p) = None \<longrightarrow>
            load_charset_from_file fs p
              = Inl (RuntimeError (''Failed to open charset file: '' @ charset_path p)))
       \<and> (charset_path p \<noteq> [] \<and> fs (charset_path p) = Some content
            \<and> getlines content = [] \<longrightarrow>
            load_charset_from_file fs p = Inr (load_default_charset p))
       \<and> charset (load_default_charset p) = default_symbols
       \<and> length (charset (load_default_charset p)) = 96
       \<and> charset (load_default_charset p) ! 0 = ''blank''"
  using assms
  by (simp add: load_charset_from_file_def load_default_charset_def
      length_default_symbols default_symbols_blank)

theorem C1_charset_fallback_witness:
  "load_charset_from_file empty_files (example_params\<lparr>charset_path := ''empty.txt''\<rparr>)
     = Inr (load_default_charset (example_params\<lparr>charset_path := ''empty.txt''\<rparr>))
   \<and> length (charset (load_default_charset (example_params\<lparr>charset_path := ''empty.txt''\<rparr>))) = 96
   \<and> charset (load_default_charset (example_params\<lparr>charset_path := ''empty.txt''\<rparr>)) ! 0 = ''blank''
   \<and> load_charset_from_file no_files example_params = Inr (load_default_charset example_params)
   \<and> load_charset_from_file no_files (example_params\<lparr>charset_path := ''empty.txt''\<rparr>)
       = Inl (RuntimeError (''Failed to open charset file: ''
                             @ charset_path (example_params\<lparr>charset_path := ''empty.txt''\<rparr>)))"
proof -
  let ?p = "example_params\<lparr>charset_path := ''empty.txt''\<rparr>"
  have c: "charset ?p = []" by (simp add: example_params_def)
  have c0: "charset example_params = []" by (simp add: example_params_def)
  have f: "empty_files (charset_path ?p) = Some []" by (simp add: empty_files_def)
  have f0: "no_files (charset_path ?p) = None" by (simp add: no_files_def)
  have g: "getlines [] = []" by (simp add: getlines_def)
  have n: "charset_path ?p \<noteq> []" by (simp add: example_params_def)
  have n0: "charset_path example_params = []" by (simp add: example_params_def)
  note t1 = C1_charset_fallback [OF c, of empty_files "[]"]
  note t2 = C1_charset_fallback [OF c, of no_files "[]"]
  note t3 = C1_charset_fallback [OF c0, of no_files "[]"]
  have a1: "load_charset_from_file empty_files ?p = Inr (load_default_charset ?p)"
    using t1 f g n by blast
  have a2: "length (charset (load_default_charset ?p)) = 96" using t1 by blast
  have a3: "charset (load_default_charset ?p) ! 0 = ''blank''" using t1 by blast
  have a4: "load_charset_from_file no_files example_params
      = Inr (load_default_charset example_params)"
    using t3 n0 by blast
  have a5: "load_charset_from_file no_files ?p
      = Inl (RuntimeError (''Failed to open charset file: '' @ charset_path ?p))"
    using t2 f0 n by blast
  show ?thesis using a1 a2 a3 a4 a5 by blast
qed

subsection \<open>\<open>crop_text_regions_filter\<close>\<close>

lemma foldl_snoc_collect: "foldl (\<lambda>acc d. acc @ [d]) acc xs = acc @ xs"
  by (induction xs arbitrary: acc) simp_all

lemma roi_objects_foldl_add_object:
  "roi_objects (foldl add_object roi xs) = roi_objects roi @ xs"
  by (induction xs arbitrary: roi) (simp_all add: add_object_def)

lemma roi_objects_crop_text_regions_filter:
  "roi_objects (crop_text_regions_filter roi)
     = filter (\<lambda>obj. \<not> is_detection obj) (roi_objects roi) @ filter is_detection (roi_objects roi)"
  by (simp add: crop_text_regions_filter_def Let_def foldl_snoc_collect
      roi_objects_foldl_add_object remove_detections_def get_hailo_detections_def)

text \<open>
  Claim C10: \<open>crop_text_regions_filter\<close> leaves the detections of the ROI unchanged,
  whatever their labels: the detections attached after the call are the detections
  attached before it (as a set, and also in the same order).
\<close>

theorem C10_filter_keeps_all_detections:
  "set (get_hailo_detections (crop_text_regions_filter roi)) = set (get_hailo_detections roi)
   \<and> get_hailo_detections (crop_text_regions_filter roi) = get_hailo_detections roi"
  by (simp add: get_hailo_detections_def roi_objects_crop_text_regions_filter)

theorem C10_filter_keeps_all_detections_witness:
  "get_hailo_detections (crop_text_regions_filter example_roi)
     = [HailoDetection \<lparr>xmin = Fin (1/4), ymin = Fin (1/4), width = Fin (1/2), height = Fin (1/4)\<rparr>
          ''text_region'' (9/10) [],
        HailoDetection unit_bbox ''car'' (1/2) []]"
  using C10_filter_keeps_all_detections [of example_roi]
  by (simp add: get_hailo_detections_def example_roi_def)

subsection \<open>\<open>merge_horizontal_boxes\<close>\<close>











subsection \<open>\<open>db_unclip_rect_iter\<close> and \<open>db_unclip_rect_iter_aniso\<close>\<close>











subsection \<open>Detection stage: the adaptive threshold\<close>

lemma adaptive_bin_thr_bounds:
  "15 / 100 \<le> t \<Longrightarrow> t \<le> 75 / 100 \<Longrightarrow>
   15 / 100 \<le> adaptive_bin_thr t fg \<and> adaptive_bin_thr t fg \<le> 75 / 100"
  by (auto simp: adaptive_bin_thr_def max_def min_def)

text \<open>
  Claim C2, as stated, fails on the code: the threshold is clamped from below only
  when it is lowered and from above only when it is raised. With
  \<open>det_bin_thresh = 0.9\<close> a map of medium density (1 pixel of 20 above the
  threshold) keeps 0.9, above 0.75; with \<open>det_bin_thresh = 0.1\<close> a dense map gives
  \<open>min(0.75, 0.12) = 0.12\<close>, below 0.15.
\<close>

theorem C2_threshold_outside_range_counterexample:
  "chosen_bin_thr (example_params\<lparr>det_bin_thresh := 9 / 10\<rparr>) map_mid = 9 / 10
   \<and> \<not> chosen_bin_thr (example_params\<lparr>det_bin_thresh := 9 / 10\<rparr>) map_mid \<le> 75 / 100
   \<and> chosen_bin_thr (example_params\<lparr>det_bin_thresh := 1 / 10\<rparr>) map_dense = 12 / 100
   \<and> \<not> 15 / 100 \<le> chosen_bin_thr (example_params\<lparr>det_bin_thresh := 1 / 10\<rparr>) map_dense"
  by (simp add: chosen_bin_thr_def adaptive_bin_thr_def fg_ratio_default_def example_params_def
      map_mid_def map_dense_def float_of_int_def Let_def)

text \<open>
  Claim C2, amended: for every probability map, the chosen binarization threshold lies
  within [0.15, 0.75] whenever the configured \<open>det_bin_thresh\<close> lies within
  [0.15, 0.75]. For any \<open>det_bin_thresh\<close>: a sparse map (ratio below 0.3%) gives a
  threshold of at least 0.15, a dense map (ratio above 8%) one of at most 0.75, and
  any other map (also the NaN ratio of an empty map) keeps \<open>det_bin_thresh\<close>.
\<close>

theorem C2_threshold_bounds:
  "(15 / 100 \<le> det_bin_thresh p \<and> det_bin_thresh p \<le> 75 / 100 \<longrightarrow>
      15 / 100 \<le> chosen_bin_thr p prob \<and> chosen_bin_thr p prob \<le> 75 / 100)
   \<and> (flt (fg_ratio_default prob (det_bin_thresh p)) (Fin (3 / 1000)) \<longrightarrow>
      15 / 100 \<le> chosen_bin_thr p prob)
   \<and> (\<not> flt (fg_ratio_default prob (det_bin_thresh p)) (Fin (3 / 1000))
      \<and> flt (Fin (8 / 100)) (fg_ratio_default prob (det_bin_thresh p)) \<longrightarrow>
      chosen_bin_thr p prob \<le> 75 / 100)
   \<and> (\<not> flt (fg_ratio_default prob (det_bin_thresh p)) (Fin (3 / 1000))
      \<and> \<not> flt (Fin (8 / 100)) (fg_ratio_default prob (det_bin_thresh p)) \<longrightarrow>
      chosen_bin_thr p prob = det_bin_thresh p)"
proof -
  have a: "15 / 100 \<le> det_bin_thresh p \<and> det_bin_thresh p \<le> 75 / 100 \<longrightarrow>
      15 / 100 \<le> chosen_bin_thr p prob \<and> chosen_bin_thr p prob \<le> 75 / 100"
    using adaptive_bin_thr_bounds [of "det_bin_thresh p"] by (simp add: chosen_bin_thr_def)
  have b: "flt (fg_ratio_default prob (det_bin_thresh p)) (Fin (3 / 1000)) \<longrightarrow>
      15 / 100 \<le> chosen_bin_thr p prob"
    by (simp add: chosen_bin_thr_def adaptive_bin_thr_def)
  have c: "\<not> flt (fg_ratio_default prob (det_bin_thresh p)) (Fin (3 / 1000))
      \<and> flt (Fin (8 / 100)) (fg_ratio_default prob (det_bin_thresh p)) \<longrightarrow>
      chosen_bin_thr p prob \<le> 75 / 100"
    by (auto simp: chosen_bin_thr_def adaptive_bin_thr_def min_def)
  have d: "\<not> flt (fg_ratio_default prob (det_bin_thresh p)) (Fin (3 / 1000))
      \<and> \<not> flt (Fin (8 / 100)) (fg_ratio_default prob (det_bin_thresh p)) \<longrightarrow>
      chosen_bin_thr p prob = det_bin_thresh p"
    by (simp add: chosen_bin_thr_def adaptive_bin_thr_def)
  show ?thesis using a b c d by blast
qed

theorem C2_threshold_bounds_witness:
  "15 / 100 \<le> det_bin_thresh example_params \<and> det_bin_thresh example_params \<le> 75 / 100
   \<and> 15 / 100 \<le> chosen_bin_thr example_params map_dense
   \<and> chosen_bin_thr example_params map_dense \<le> 75 / 100
   \<and> chosen_bin_thr example_params map_mid = det_bin_thresh example_params
   \<and> flt (fg_ratio_default map_mid (det_bin_thresh (example_params\<lparr>det_bin_thresh := 1\<rparr>)))
         (Fin (3 / 1000))
   \<and> 15 / 100 \<le> chosen_bin_thr (example_params\<lparr>det_bin_thresh := 1\<rparr>) map_mid
   \<and> flt (Fin (8 / 100))
         (fg_ratio_default map_dense (det_bin_thresh (example_params\<lparr>det_bin_thresh := 9 / 10\<rparr>)))
   \<and> chosen_bin_thr (example_params\<lparr>det_bin_thresh := 9 / 10\<rparr>) map_dense \<le> 75 / 100"
proof -
  have h: "15 / 100 \<le> det_bin_thresh example_params \<and> det_bin_thresh example_params \<le> 75 / 100"
    by (simp add: example_params_def)
  have m: "\<not> flt (fg_ratio_default map_mid (det_bin_thresh example_params)) (Fin (3 / 1000))
      \<and> \<not> flt (Fin (8 / 100)) (fg_ratio_default map_mid (det_bin_thresh example_params))"
    by (simp add: fg_ratio_default_def example_params_def map_mid_def float_of_int_def Let_def)
  have sp: "flt (fg_ratio_default map_mid (det_bin_thresh (example_params\<lparr>det_bin_thresh := 1\<rparr>)))
      (Fin (3 / 1000))"
    by (simp add: fg_ratio_default_def map_mid_def float_of_int_def Let_def)
  have de: "\<not> flt (fg_ratio_default map_dense
                     (det_bin_thresh (example_params\<lparr>det_bin_thresh := 9 / 10\<rparr>))) (Fin (3 / 1000))
      \<and> flt (Fin (8 / 100))
          (fg_ratio_default map_dense (det_bin_thresh (example_params\<lparr>det_bin_thresh := 9 / 10\<rparr>)))"
    by (simp add: fg_ratio_default_def map_dense_def float_of_int_def Let_def)
  have a1: "15 / 100 \<le> chosen_bin_thr example_params map_dense
      \<and> chosen_bin_thr example_params map_dense \<le> 75 / 100"
    using C2_threshold_bounds [of example_params map_dense] h by blast
  have a2: "chosen_bin_thr example_params map_mid = det_bin_thresh example_params"
    using C2_threshold_bounds [of example_params map_mid] m by blast
  have a3: "15 / 100 \<le> chosen_bin_thr (example_params\<lparr>det_bin_thresh := 1\<rparr>) map_mid"
    using C2_threshold_bounds [of "example_params\<lparr>det_bin_thresh := 1\<rparr>" map_mid] sp by blast
  have a4: "chosen_bin_thr (example_params\<lparr>det_bin_thresh := 9 / 10\<rparr>) map_dense \<le> 75 / 100"
    using C2_threshold_bounds [of "example_params\<lparr>det_bin_thresh := 9 / 10\<rparr>" map_dense] de
    by blast
  show ?thesis using h a1 a2 a3 a4 sp de by blast
qed

subsection \<open>Detection stage: the tensor lookup\<close>

lemma lookup_empty:
  "tensors roi = [] \<longleftrightarrow>
      get_tensor_by_name_or_fallback roi desired = Inl (RuntimeError ''ROI has no tensors'')"
  by (auto simp: get_tensor_by_name_or_fallback_def split: option.splits list.splits)

lemma lookup_member:
  "tensors roi \<noteq> [] \<Longrightarrow>
   \<exists>t\<in>set (tensors roi). get_tensor_by_name_or_fallback roi desired = Inr t"
proof (cases "find (\<lambda>t. tensor_name t = desired) (tensors roi)")
  case None
  assume "tensors roi \<noteq> []"
  then show ?thesis using None
    by (cases "tensors roi") (simp_all add: get_tensor_by_name_or_fallback_def)
next
  case (Some c)
  then have "c \<in> set (tensors roi)" by (auto simp: find_Some_iff)
  then show ?thesis using Some by (simp add: get_tensor_by_name_or_fallback_def)
qed

lemma lookup_fallback:
  assumes "tensors roi \<noteq> []" "\<forall>t\<in>set (tensors roi). tensor_name t \<noteq> desired"
  shows "get_tensor_by_name_or_fallback roi desired = Inr (hd (tensors roi))"
proof -
  have "find (\<lambda>t. tensor_name t = desired) (tensors roi) = None"
    using assms(2) by (simp add: find_None_iff)
  then show ?thesis using assms(1)
    by (cases "tensors roi") (simp_all add: get_tensor_by_name_or_fallback_def)
qed

lemma paddleocr_det_never_no_tensors:
  "paddleocr_det f p roi \<noteq> Inl (RuntimeError ''ROI has no tensors'')"
proof (cases "tensors roi = []")
  case True
  then show ?thesis by (simp add: paddleocr_det_def has_tensors_def)
next
  case False
  then obtain t where t: "get_tensor_by_name_or_fallback roi (det_output_name p) = Inr t"
    using lookup_member [of roi "det_output_name p"] by blast
  show ?thesis
    using False t
    by (auto simp: paddleocr_det_def has_tensors_def tensor_to_probmap_u8_as_float_def Let_def
        split: prod.splits sum.splits option.splits if_splits)
qed

text \<open>
  Claim C4, as stated, fails on the code: the lookup can find no tensor only in a ROI
  without tensors, and there \<open>paddleocr_det\<close> has already returned. On the ROI
  without tensors the lookup itself raises, and \<open>paddleocr_det\<close> does not.
\<close>

theorem C4_no_tensor_no_raise_counterexample:
  "tensors example_roi = []
   \<and> get_tensor_by_name_or_fallback example_roi (det_output_name example_params)
       = Inl (RuntimeError ''ROI has no tensors'')
   \<and> paddleocr_det no_contours example_params example_roi = Inr example_roi"
  by (simp add: get_tensor_by_name_or_fallback_def paddleocr_det_def has_tensors_def
      example_roi_def)

text \<open>
  Claim C4, amended: when the ROI carries no tensors, \<open>paddleocr_det\<close> is a no-op that
  neither raises nor adds detections. The lookup \<open>get_tensor_by_name_or_fallback\<close>
  raises exactly when the ROI has no tensors; in a ROI with tensors a name that matches
  no tensor selects the first tensor. Hence \<open>paddleocr_det\<close> never raises the error of
  the lookup.
\<close>

theorem C4_lookup_and_guard:
  "(tensors roi = [] \<longrightarrow> paddleocr_det find_rects p roi = Inr roi)
   \<and> (tensors roi = [] \<longleftrightarrow>
        get_tensor_by_name_or_fallback roi desired = Inl (RuntimeError ''ROI has no tensors''))
   \<and> (tensors roi \<noteq> [] \<longrightarrow>
        (\<exists>t\<in>set (tensors roi). get_tensor_by_name_or_fallback roi desired = Inr t))
   \<and> (tensors roi \<noteq> [] \<and> (\<forall>t\<in>set (tensors roi). tensor_name t \<noteq> desired) \<longrightarrow>
        get_tensor_by_name_or_fallback roi desired = Inr (hd (tensors roi)))
   \<and> paddleocr_det find_rects p roi \<noteq> Inl (RuntimeError ''ROI has no tensors'')"
proof -
  have a: "tensors roi = [] \<longrightarrow> paddleocr_det find_rects p roi = Inr roi"
    by (simp add: paddleocr_det_def has_tensors_def)
  show ?thesis
    using a lookup_empty [of roi desired] lookup_member [of roi desired]
      lookup_fallback [of roi desired] paddleocr_det_never_no_tensors [of find_rects p roi]
    by blast
qed

theorem C4_lookup_and_guard_witness:
  "paddleocr_det no_contours example_params example_roi = Inr example_roi
   \<and> get_tensor_by_name_or_fallback example_det_roi (det_output_name example_params)
       = Inr example_tensor
   \<and> paddleocr_det no_contours example_params example_det_roi = Inr example_det_roi"
proof -
  have e: "tensors example_roi = []" by (simp add: example_roi_def)
  have n: "tensors example_det_roi \<noteq> []
      \<and> (\<forall>t\<in>set (tensors example_det_roi). tensor_name t \<noteq> det_output_name example_params)"
    by (simp add: example_det_roi_def example_tensor_def example_params_def)
  have h: "hd (tensors example_det_roi) = example_tensor" by (simp add: example_det_roi_def)
  have r: "paddleocr_det no_contours example_params example_det_roi = Inr example_det_roi"
    by code_simp
  from C4_lookup_and_guard [of example_roi no_contours example_params "det_output_name example_params"]
       C4_lookup_and_guard [of example_det_roi no_contours example_params "det_output_name example_params"]
       e n h r
  show ?thesis by metis
qed

subsection \<open>Detection stage: the fallback\<close>













subsection \<open>Recognition stage\<close>

lemma attach_text_cases:
  "attach_text roi out_text conf =
     (if out_text = [] \<or> out_text = '' '' \<or> get_hailo_detections roi = [] then roi
      else roi\<lparr>roi_objects :=
                 add_to_first_detection (HailoClassification ''license_plate'' out_text conf)
                   (roi_objects roi)\<rparr>)"
  by (simp add: attach_text_def)

text \<open>
  Claim C3 against the code: the text is tested against the empty string and the
  single space only. Here the rows of the tensor have their maxima at the classes
  1, 0, 1 of the charset \<open>[blank, space]\<close>; the decoded text is two spaces, pure
  whitespace, and the classification \<open>license_plate\<close> with this text and confidence 1
  is attached to the first detection.
\<close>

theorem C3_whitespace_only_text_is_attached:
  "paddleocr_recognize space_params (rec_roi space_tensor)
     = Inr ((rec_roi space_tensor)\<lparr>roi_objects :=
         [HailoDetection unit_bbox ''text_region'' (9 / 10)
            [HailoClassification ''license_plate'' ''  '' 1]]\<rparr>)"
proof -
  have a: "ctc_decode space_params (build_probs False 3 2 [0, 255, 255, 0, 0, 255])
      = (''  '', 2, 2, 1)"
    by code_simp
  have l: "get_tensor_by_name_or_fallback (rec_roi space_tensor) (rec_output_name space_params)
      = Inr space_tensor"
    by code_simp
  have s: "logits_are_softmax space_params" by code_simp
  have t: "attach_text (rec_roi space_tensor) ''  '' 1
      = (rec_roi space_tensor)\<lparr>roi_objects :=
          [HailoDetection unit_bbox ''text_region'' (9 / 10)
             [HailoClassification ''license_plate'' ''  '' 1]]\<rparr>"
    by code_simp
  have h: "has_tensors (rec_roi space_tensor)" by code_simp
  have sh: "tensor_shape space_tensor = [1, 3, 2]"
    and d: "tensor_data space_tensor = Some [0, 255, 255, 0, 0, 255]"
    by (simp_all add: space_tensor_def)
  show ?thesis
    by (simp add: paddleocr_recognize_def h l s a t sh d Let_def)
qed

lemma recognize_overflow_example:
  "paddleocr_recognize letter_params (rec_roi overflow_tensor)
     = Inr ((rec_roi overflow_tensor)\<lparr>roi_objects :=
         [HailoDetection unit_bbox ''text_region'' (9 / 10)
            [HailoClassification ''license_plate'' ''?a'' 1]]\<rparr>)"
proof -
  have a: "ctc_decode letter_params (build_probs True 3 3 [0, 0, 0, 0, 0, 255, 255, 255, 0])
      = (''?a'', 2, 2, 1)"
    by code_simp
  have l: "get_tensor_by_name_or_fallback (rec_roi overflow_tensor) (rec_output_name letter_params)
      = Inr overflow_tensor"
    by code_simp
  have s: "logits_are_softmax letter_params" by code_simp
  have t: "attach_text (rec_roi overflow_tensor) ''?a'' 1
      = (rec_roi overflow_tensor)\<lparr>roi_objects :=
          [HailoDetection unit_bbox ''text_region'' (9 / 10)
             [HailoClassification ''license_plate'' ''?a'' 1]]\<rparr>"
    by code_simp
  have h: "has_tensors (rec_roi overflow_tensor)" by code_simp
  have sh: "tensor_shape overflow_tensor = [1, 3, 3]"
    and d: "tensor_data overflow_tensor = Some [0, 0, 0, 0, 0, 255, 255, 255, 0]"
    by (simp_all add: overflow_tensor_def)
  show ?thesis
    by (simp add: paddleocr_recognize_def h l s a t sh d Let_def)
qed

text \<open>A tensor of rank 3 with batch 1, positive dimensions and a buffer that holds
  them is decoded without any error, whatever the charset.\<close>

lemma paddleocr_recognize_returns:
  assumes "has_tensors roi"
      and "get_tensor_by_name_or_fallback roi (rec_output_name p) = Inr t"
      and "tensor_shape t = [1, D1, D2]" and "tensor_data t = Some u8"
      and "D1 * D2 \<le> length u8" and "0 < D1" and "0 < D2"
  shows "\<exists>roi'. paddleocr_recognize p roi = Inr roi'"
proof -
  have m: "max D1 D2 * min D1 D2 = D1 * D2"
    by (simp add: max_def min_def mult.commute)
  have c: "min D1 D2 \<noteq> 0" using assms(6,7) by (simp add: min_def)
  show ?thesis
    using assms(1-5) m c
    by (simp add: paddleocr_recognize_def Let_def split: prod.splits)
qed

text \<open>
  Claim C8, as stated, fails on the code: a class index beyond the charset that repeats
  the index of the previous timestep appends nothing. With the charset \<open>[blank, a]\<close>
  (\<open>K = 2\<close>) and three classes, the rows with maxima at the classes 2, 2, 1 decode to
  \<open>?a\<close>: the second timestep has index \<open>2 \<ge> K\<close> and leaves the text unchanged.
\<close>

theorem C8_repeated_index_appends_nothing_counterexample:
  "int (length (charset letter_params)) \<le> int (max_element_index [0, 0, 1])
   \<and> ctc_step letter_params (''?'', 1, 1, 2) [0, 0, 1] = (''?'', 1, 1, 2)
   \<and> ctc_step letter_params (''?'', 1, 1, 2) [0, 0, 1] \<noteq> (''??'', 2, 2, 2)
   \<and> ctc_decode letter_params [[0, 0, 1], [0, 0, 1], [0, 1, 0]] = (''?a'', 2, 2, 1)"
  by code_simp

text \<open>
  Claim C8, amended: for every charset of size \<open>K\<close> and every row whose arg-max class
  index \<open>idx\<close> is at least \<open>K\<close>, the decode step appends the literal \<open>?\<close> for that
  timestep when \<open>idx\<close> differs from the blank index and from the index of the
  previous timestep, and appends nothing otherwise; it never faults, and the
  recognition of a well-formed tensor returns without raising.
\<close>

theorem C8_out_of_range_index_decodes_to_placeholder:
  assumes "row \<noteq> []"
      and "int (length (charset p)) \<le> int (max_element_index row)"
  shows "(int (max_element_index row) \<noteq> blank_index p \<and> int (max_element_index row) \<noteq> prev \<longrightarrow>
            ctc_step p (out_text, conf_sum, conf_count, prev) row
              = (out_text @ ''?'', conf_sum + row ! max_element_index row, conf_count + 1,
                 int (max_element_index row)))
       \<and> (int (max_element_index row) = blank_index p \<or> int (max_element_index row) = prev \<longrightarrow>
            ctc_step p (out_text, conf_sum, conf_count, prev) row
              = (out_text, conf_sum, conf_count, int (max_element_index row)))
       \<and> (has_tensors roi \<and> get_tensor_by_name_or_fallback roi (rec_output_name p) = Inr t
            \<and> tensor_shape t = [1, D1, D2] \<and> tensor_data t = Some u8
            \<and> D1 * D2 \<le> length u8 \<and> 0 < D1 \<and> 0 < D2 \<longrightarrow>
            (\<exists>roi'. paddleocr_recognize p roi = Inr roi'))"
proof -
  have a: "int (max_element_index row) \<noteq> blank_index p \<and> int (max_element_index row) \<noteq> prev \<longrightarrow>
      ctc_step p (out_text, conf_sum, conf_count, prev) row
        = (out_text @ ''?'', conf_sum + row ! max_element_index row, conf_count + 1,
           int (max_element_index row))"
    using assms(2) by (simp add: ctc_step_def Let_def)
  have b: "int (max_element_index row) = blank_index p \<or> int (max_element_index row) = prev \<longrightarrow>
      ctc_step p (out_text, conf_sum, conf_count, prev) row
        = (out_text, conf_sum, conf_count, int (max_element_index row))"
    by (auto simp: ctc_step_def Let_def)
  show ?thesis
    using a b paddleocr_recognize_returns [of roi p t D1 D2 u8] by blast
qed

theorem C8_out_of_range_index_decodes_to_placeholder_witness:
  "int (length (charset letter_params)) \<le> int (max_element_index [0, 0, 1])
   \<and> ctc_step letter_params ([], 0, 0, - 1) [0, 0, 1]
       = (''?'', 0 + [0, 0, 1] ! max_element_index [0, 0, 1], 0 + 1,
          int (max_element_index [0, 0, 1]))
   \<and> ctc_step letter_params (''?'', 1, 1, 2) [0, 0, 1]
       = (''?'', 1, 1, int (max_element_index [0, 0, 1]))
   \<and> (\<exists>roi'. paddleocr_recognize letter_params (rec_roi overflow_tensor) = Inr roi')"
proof -
  have r: "[0, 0, 1 :: real] \<noteq> []" by simp
  have k: "int (length (charset letter_params)) \<le> int (max_element_index [0, 0, 1])"
    by code_simp
  have n: "int (max_element_index [0, 0, 1]) \<noteq> blank_index letter_params
      \<and> int (max_element_index [0, 0, 1]) \<noteq> - 1"
    by code_simp
  have q: "int (max_element_index [0, 0, 1]) = 2" by code_simp
  have w: "has_tensors (rec_roi overflow_tensor)
      \<and> get_tensor_by_name_or_fallback (rec_roi overflow_tensor) (rec_output_name letter_params)
          = Inr overflow_tensor
      \<and> tensor_shape overflow_tensor = [1, 3, 3]
      \<and> tensor_data overflow_tensor = Some [0, 0, 0, 0, 0, 255, 255, 255, 0]
      \<and> 3 * 3 \<le> length [0, 0, 0, 0, 0, 255, 255, 255, 0 :: 8 word] \<and> (0::nat) < 3"
    by code_simp
  note t1 = C8_out_of_range_index_decodes_to_placeholder [OF r k,
         of "- 1" "[]" 0 0 "rec_roi overflow_tensor" overflow_tensor 3 3
            "[0, 0, 0, 0, 0, 255, 255, 255, 0]"]
  note t2 = C8_out_of_range_index_decodes_to_placeholder [OF r k,
         of 2 "''?''" 1 1 "rec_roi overflow_tensor" overflow_tensor 3 3
            "[0, 0, 0, 0, 0, 255, 255, 255, 0]"]
  have a1: "ctc_step letter_params ([], 0, 0, - 1) [0, 0, 1]
      = ([] @ ''?'', 0 + [0, 0, 1] ! max_element_index [0, 0, 1], 0 + 1,
         int (max_element_index [0, 0, 1]))"
    using t1 n by blast
  have a2: "ctc_step letter_params (''?'', 1, 1, 2) [0, 0, 1]
      = (''?'', 1, 1, int (max_element_index [0, 0, 1]))"
    using t2 q by blast
  have a3: "\<exists>roi'. paddleocr_recognize letter_params (rec_roi overflow_tensor) = Inr roi'"
    using t1 w by blast
  show ?thesis using k a1 a2 a3 by simp
qed

subsection \<open>\<open>crop_text_regions\<close>\<close>







end
